theory Spec2Isabelle
  imports Main "HOL-Library.Word"
begin

section \<open>Typed properties: the data model\<close>

text \<open>
  The package \<open>properties\<close> turns untyped values, raw text and YAML front matter into
  named, typed properties. This theory embeds \<open>property.go\<close>, \<open>factory.go\<close> and
  \<open>properties.go\<close>.

  Conventions of the embedding.
  \<^item> A Go \<open>string\<close> or \<open>[]byte\<close> is a \<open>string\<close> (a list of 8-bit \<open>char\<close>s).
  \<^item> \<open>int64\<close> is \<open>64 word\<close>; \<open>int\<close> and \<open>uint\<close> are taken at their 64-bit width.
  \<^item> A result triple \<open>(Property, bool, error)\<close> is
    \<open>property option \<times> bool \<times> error option\<close>, with \<open>None\<close> for \<open>nil\<close>.
  \<^item> The \<open>context.Context\<close> argument carries no data that the code reads; it is dropped.
  \<^item> Caller-supplied callbacks (custom creators, hooks, policies, allow functions) are
    total functions of the arguments the package hands them, except the variadic
    \<open>options\<close>, which a callback receives unchanged from the call it serves.
\<close>

type_synonym PropertyName = string

text \<open>\<open>time.Time\<close>, reduced to an instant and a zone offset.\<close>

datatype Time = Time (unixNanos: int) (zoneOffset: int)

text \<open>
  The dynamic values an \<open>interface{}\<close> argument can hold, by dynamic type. \<open>AOther\<close>
  stands for a value of any further type, with the texts \<open>%T\<close> and \<open>%+v\<close> print for it.
\<close>

datatype any_value =
    AString string
  | AStrings "string list"
  | ATime Time
  | ABool bool
  | AInt "64 word"
  | AInt64 "64 word"
  | AInt8 "8 word"
  | AInt16 "16 word"
  | AInt32 "32 word"
  | AUint "64 word"
  | AOther string string

fun typeName :: "any_value \<Rightarrow> string" where
  "typeName (AString _) = ''string''"
| "typeName (AStrings _) = ''[]string''"
| "typeName (ATime _) = ''time.Time''"
| "typeName (ABool _) = ''bool''"
| "typeName (AInt _) = ''int''"
| "typeName (AInt64 _) = ''int64''"
| "typeName (AInt8 _) = ''int8''"
| "typeName (AInt16 _) = ''int16''"
| "typeName (AInt32 _) = ''int32''"
| "typeName (AUint _) = ''uint''"
| "typeName (AOther t _) = t"

text \<open>
  The implementations of the interface \<open>Property\<close> in \<open>property.go\<close>, one constructor
  per struct, fields in the order of the struct. \<open>OtherProperty\<close> is any other
  implementation (a custom creator or a hook may return one), with what its \<open>Name\<close> and
  \<open>AnyValue\<close> return.
\<close>

datatype property =
    DefaultDateTimeProperty PropertyName Time
  | DefaultFlagProperty PropertyName bool
  | DefaultCardinalProperty PropertyName "64 word"
  | DefaultTextProperty PropertyName string
  | DefaultTextListProperty PropertyName "string list"
  | OtherProperty PropertyName any_value

fun Name :: "property \<Rightarrow> PropertyName" where
  "Name (DefaultDateTimeProperty n _) = n"
| "Name (DefaultFlagProperty n _) = n"
| "Name (DefaultCardinalProperty n _) = n"
| "Name (DefaultTextProperty n _) = n"
| "Name (DefaultTextListProperty n _) = n"
| "Name (OtherProperty n _) = n"

fun AnyValue :: "property \<Rightarrow> any_value" where
  "AnyValue (DefaultDateTimeProperty _ t) = ATime t"
| "AnyValue (DefaultFlagProperty _ b) = ABool b"
| "AnyValue (DefaultCardinalProperty _ n) = AInt64 n"
| "AnyValue (DefaultTextProperty _ s) = AString s"
| "AnyValue (DefaultTextListProperty _ ss) = AStrings ss"
| "AnyValue (OtherProperty _ v) = v"

text \<open>
  Errors. \<open>UnknownTypeError name type value\<close> is
  \<open>fmt.Errorf("Unable to add %q property, type %T is not known: %+v", name, value, value)\<close>;
  \<open>FrontMatterParserError i s e\<close> is \<open>fmt.Errorf("Unexplained front matter parser error;
  insideFrontMatter: %v, yamlStartIndex: %v, yamlEndIndex: %v", i, s, e)\<close>;
  \<open>ItemsNilError where\<close> is the "items is Nil" error of the bulk operations;
  \<open>CallbackError msg\<close> is an error made by a caller-supplied callback.
\<close>

datatype error =
    UnknownTypeError string string any_value
  | FrontMatterParserError bool nat nat
  | ItemsNilError string
  | CallbackError string

type_synonym result = "property option \<times> bool \<times> error option"

section \<open>The standard library functions the package calls\<close>

subsection \<open>strconv.ParseBool and strconv.ParseInt\<close>

definition ParseBool :: "string \<Rightarrow> bool option" where
  "ParseBool str =
     (if str \<in> set [''1'', ''t'', ''T'', ''true'', ''TRUE'', ''True''] then Some True
      else if str \<in> set [''0'', ''f'', ''F'', ''false'', ''FALSE'', ''False''] then Some False
      else None)"

definition isDigit :: "char \<Rightarrow> bool" where
  "isDigit c = (48 \<le> (of_char c :: nat) \<and> (of_char c :: nat) \<le> 57)"

definition decimal :: "string \<Rightarrow> nat" where
  "decimal ds = foldl (\<lambda>acc c. acc * 10 + ((of_char c :: nat) - 48)) 0 ds"

text \<open>
  \<open>strconv.ParseInt(s, 10, 64)\<close>: an optional sign, then one or more decimal digits
  (no underscores, no prefix, since the base is given); \<open>None\<close> is a syntax or a range
  error. The cutoff is \<open>2 ^ 63\<close>.
\<close>

definition ParseInt :: "string \<Rightarrow> 64 word option" where
  "ParseInt s =
     (case s of
        [] \<Rightarrow> None
      | c # cs \<Rightarrow>
          (let neg = (c = CHR ''-'');
               ds = (if c = CHR ''+'' \<or> c = CHR ''-'' then cs else s)
           in if ds = [] then None
              else if list_ex (\<lambda>d. \<not> isDigit d) ds then None
              else if neg then
                (if decimal ds > 2 ^ 63 then None else Some (- word_of_nat (decimal ds)))
              else
                (if decimal ds \<ge> 2 ^ 63 then None else Some (word_of_nat (decimal ds)))))"

section \<open>The property factory (factory.go)\<close>

type_synonym creator = "string \<Rightarrow> any_value \<Rightarrow> result"

text \<open>
  One element of the variadic \<open>options\<close>. A value of the function type
  \<open>CustomCreatorFunc\<close> has no methods, so it implements none of the interfaces;
  any other value is an object that may implement \<open>CustomCreatorHandler\<close> (its
  \<open>FromAny\<close> method), \<open>AddPropertyPolicy\<close> (its \<open>AllowAdd\<close> method) and
  \<open>AddPropertyEvent\<close>, independently.
\<close>

datatype option_value =
    OptCreatorFunc creator
  | OptObject (asCreatorHandler: "creator option")
              (asAddPolicy: "(property option \<Rightarrow> result) option")
              (asAddEvent: bool)

record DefaultPropertyFactory =
  CustomCreatorFunc :: "creator option"
  CustomCreator :: "creator option"
  AfterCreateHookFunc :: "(property \<Rightarrow> result) option"
  AfterCreate :: "(property \<Rightarrow> result) option"

text \<open>\<open>ThePropertyFactory = &DefaultPropertyFactory{}\<close>: every field nil.\<close>

definition ThePropertyFactory :: DefaultPropertyFactory where
  "ThePropertyFactory =
     \<lparr>CustomCreatorFunc = None, CustomCreator = None,
      AfterCreateHookFunc = None, AfterCreate = None\<rparr>"

definition afterSuccessfulCreate :: "DefaultPropertyFactory \<Rightarrow> property \<Rightarrow> result" where
  "afterSuccessfulCreate f prop =
     (case AfterCreate f of
        Some hook \<Rightarrow> hook prop
      | None \<Rightarrow>
          (case AfterCreateHookFunc f of
             Some fn \<Rightarrow> fn prop
           | None \<Rightarrow> (Some prop, True, None)))"

text \<open>
  The loop over \<open>options\<close> returns at the first element that is a creator function or
  a creator handler; after the loop come the two creators of the factory.
\<close>

fun handleUnknownType ::
  "DefaultPropertyFactory \<Rightarrow> string \<Rightarrow> any_value \<Rightarrow> option_value list \<Rightarrow> result" where
  "handleUnknownType f name v [] =
     (case CustomCreator f of
        Some handler \<Rightarrow> handler name v
      | None \<Rightarrow>
          (case CustomCreatorFunc f of
             Some fn \<Rightarrow> fn name v
           | None \<Rightarrow> (None, False, Some (UnknownTypeError name (typeName v) v))))"
| "handleUnknownType f name v (OptCreatorFunc fn # options) = fn name v"
| "handleUnknownType f name v (OptObject handler policy event # options) =
     (case handler of
        Some inst \<Rightarrow> inst name v
      | None \<Rightarrow> handleUnknownType f name v options)"

fun FromAny ::
  "DefaultPropertyFactory \<Rightarrow> string \<Rightarrow> any_value \<Rightarrow> option_value list \<Rightarrow> result" where
  "FromAny f name (AString v) options = afterSuccessfulCreate f (DefaultTextProperty name v)"
| "FromAny f name (AStrings v) options = afterSuccessfulCreate f (DefaultTextListProperty name v)"
| "FromAny f name (ATime v) options = afterSuccessfulCreate f (DefaultDateTimeProperty name v)"
| "FromAny f name (ABool v) options = afterSuccessfulCreate f (DefaultFlagProperty name v)"
| "FromAny f name (AInt v) options = afterSuccessfulCreate f (DefaultCardinalProperty name v)"
| "FromAny f name (AInt64 v) options = afterSuccessfulCreate f (DefaultCardinalProperty name v)"
| "FromAny f name v options = handleUnknownType f name v options"

text \<open>
  \<open>FromText\<close>. The date parser \<open>dateparse.ParseAny\<close> belongs to a library outside the
  repository; it is the parameter \<open>ParseAny\<close>, with \<open>None\<close> for a returned error.
\<close>

definition FromText ::
  "(string \<Rightarrow> Time option) \<Rightarrow> DefaultPropertyFactory \<Rightarrow> string \<Rightarrow> string \<Rightarrow>
   option_value list \<Rightarrow> result" where
  "FromText ParseAny f name v options =
     (case ParseBool v of
        Some flag \<Rightarrow> FromAny f name (ABool flag) options
      | None \<Rightarrow>
          (case ParseAny v of
             Some dateTime \<Rightarrow> FromAny f name (ATime dateTime) options
           | None \<Rightarrow>
               (case ParseInt v of
                  Some number \<Rightarrow> FromAny f name (AInt64 number) options
                | None \<Rightarrow> FromAny f name (AString v) options)))"

section \<open>The mutable collection (properties.go)\<close>

text \<open>
  A call either returns or panics (a method call on a nil interface value, a slice
  expression out of range).
\<close>

datatype 'a outcome = Return 'a | Panic

text \<open>
  The struct \<open>Default\<close>. \<open>syncMap\<close> is the \<open>sync.Map\<close> from names to properties.
  \<open>addEvent\<close> holds whether an \<open>AddPropertyEvent\<close> is installed; its method
  \<open>PropertyAdded\<close> returns nothing, so all the model keeps of it is the trace
  \<open>notified\<close> of the properties it was called with, oldest first.
\<close>

record Default =
  pf :: DefaultPropertyFactory
  syncMap :: "PropertyName \<rightharpoonup> property"
  syncMapSize :: "64 word"
  addPolicy :: "(property option \<Rightarrow> result) option"
  addEvent :: bool
  notified :: "property list"

fun newDefaultProperties_loop :: "Default \<Rightarrow> option_value list \<Rightarrow> Default" where
  "newDefaultProperties_loop result [] = result"
| "newDefaultProperties_loop result (OptCreatorFunc fn # options) =
     newDefaultProperties_loop result options"
| "newDefaultProperties_loop result (OptObject handler policy event # options) =
     newDefaultProperties_loop
       (result\<lparr>addPolicy := (case policy of Some instance \<Rightarrow> Some instance
                                            | None \<Rightarrow> addPolicy result),
               addEvent := (if event then True else addEvent result)\<rparr>)
       options"

definition newDefaultProperties :: "DefaultPropertyFactory \<Rightarrow> option_value list \<Rightarrow> Default" where
  "newDefaultProperties factory options =
     newDefaultProperties_loop
       \<lparr>pf = factory, syncMap = Map.empty, syncMapSize = 0, addPolicy = None,
        addEvent = False, notified = []\<rparr>
       options"

text \<open>
  \<open>AddProperty\<close>. The tail of the function, from \<open>p.syncMap.Store\<close> on, is
  \<open>AddProperty_store\<close>; \<open>finalProp.Name(ctx)\<close> on a nil interface value panics.
\<close>

definition AddProperty_store :: "Default \<Rightarrow> property option \<Rightarrow> (Default \<times> result) outcome" where
  "AddProperty_store p finalProp =
     (case finalProp of
        None \<Rightarrow> Panic
      | Some fp \<Rightarrow>
          Return
            (p\<lparr>syncMap := (syncMap p)(Name fp \<mapsto> fp),
               syncMapSize := syncMapSize p + 1,
               notified := (if addEvent p then notified p @ [fp] else notified p)\<rparr>,
             (Some fp, True, None)))"

definition AddProperty :: "Default \<Rightarrow> property option \<Rightarrow> (Default \<times> result) outcome" where
  "AddProperty p givenProp =
     (case addPolicy p of
        None \<Rightarrow> AddProperty_store p givenProp
      | Some policy \<Rightarrow>
          (case policy givenProp of
             (finalProp, add, err) \<Rightarrow>
               if err \<noteq> None then Return (p, (givenProp, False, err))
               else if \<not> add then Return (p, (finalProp, False, None))
               else AddProperty_store p finalProp))"

type_synonym AllowAddFunc = "string \<Rightarrow> any_value \<Rightarrow> property option \<Rightarrow> result"
type_synonym AllowAddTextFunc = "string \<Rightarrow> string \<Rightarrow> property option \<Rightarrow> result"

text \<open>
  \<open>AddChecked\<close> and \<open>AddParsedChecked\<close>. The error the \<open>allow\<close> function returns is
  assigned and never read.
\<close>

definition AddChecked ::
  "Default \<Rightarrow> string \<Rightarrow> any_value \<Rightarrow> AllowAddFunc option \<Rightarrow> option_value list \<Rightarrow>
   (Default \<times> result) outcome" where
  "AddChecked p name v allow options =
     (case FromAny (pf p) name v options of
        (prop, ok, err) \<Rightarrow>
          if err \<noteq> None then Return (p, (None, False, err))
          else
            (case (case allow of Some a \<Rightarrow> a name v prop | None \<Rightarrow> (prop, ok, err)) of
               (prop', ok', err') \<Rightarrow>
                 if ok' then AddProperty p prop' else Return (p, (prop', ok', None))))"

definition AddParsedChecked ::
  "(string \<Rightarrow> Time option) \<Rightarrow> Default \<Rightarrow> string \<Rightarrow> string \<Rightarrow> AllowAddTextFunc option \<Rightarrow>
   option_value list \<Rightarrow> (Default \<times> result) outcome" where
  "AddParsedChecked ParseAny p name v allow options =
     (case FromText ParseAny (pf p) name v options of
        (prop, ok, err) \<Rightarrow>
          if err \<noteq> None then Return (p, (None, False, err))
          else
            (case (case allow of Some a \<Rightarrow> a name v prop | None \<Rightarrow> (prop, ok, err)) of
               (prop', ok', err') \<Rightarrow>
                 if ok' then AddProperty p prop' else Return (p, (prop', ok', None))))"


definition Add ::
  "Default \<Rightarrow> string \<Rightarrow> any_value \<Rightarrow> option_value list \<Rightarrow> (Default \<times> result) outcome" where
  "Add p name v options = AddChecked p name v None options"

text \<open>
  The bulk operations. A Go map is given as the list of its entries in the order the
  \<open>range\<close> loop visits them (any order may occur), \<open>None\<close> being the nil map. The loops
  carry \<open>count\<close>.
\<close>

fun AddMap_loop ::
  "Default \<Rightarrow> (string \<times> any_value) list \<Rightarrow> AllowAddFunc option \<Rightarrow> option_value list \<Rightarrow>
   64 word \<Rightarrow> (Default \<times> 64 word \<times> error option) outcome" where
  "AddMap_loop p [] allow options count = Return (p, count, None)"
| "AddMap_loop p ((name, v) # items) allow options count =
     (case AddChecked p name v allow options of
        Panic \<Rightarrow> Panic
      | Return (p', _, ok, err) \<Rightarrow>
          if err \<noteq> None then Return (p', count, err)
          else AddMap_loop p' items allow options (if ok then count + 1 else count))"

definition AddMap ::
  "Default \<Rightarrow> (string \<times> any_value) list option \<Rightarrow> AllowAddFunc option \<Rightarrow> option_value list \<Rightarrow>
   (Default \<times> 64 word \<times> error option) outcome" where
  "AddMap p items allow options =
     (case items of
        None \<Rightarrow> Return (p, 0, Some (ItemsNilError ''properties.Default.AddMap''))
      | Some entries \<Rightarrow> AddMap_loop p entries allow options 0)"

fun AddTextMap_loop ::
  "(string \<Rightarrow> Time option) \<Rightarrow> Default \<Rightarrow> (string \<times> string) list \<Rightarrow> AllowAddTextFunc option \<Rightarrow>
   option_value list \<Rightarrow> 64 word \<Rightarrow> (Default \<times> 64 word \<times> error option) outcome" where
  "AddTextMap_loop ParseAny p [] allow options count = Return (p, count, None)"
| "AddTextMap_loop ParseAny p ((name, v) # items) allow options count =
     (case AddParsedChecked ParseAny p name v allow options of
        Panic \<Rightarrow> Panic
      | Return (p', _, ok, err) \<Rightarrow>
          if err \<noteq> None then Return (p', count, err)
          else AddTextMap_loop ParseAny p' items allow options (if ok then count + 1 else count))"

definition AddTextMap ::
  "(string \<Rightarrow> Time option) \<Rightarrow> Default \<Rightarrow> (string \<times> string) list option \<Rightarrow>
   AllowAddTextFunc option \<Rightarrow> option_value list \<Rightarrow>
   (Default \<times> 64 word \<times> error option) outcome" where
  "AddTextMap ParseAny p items allow options =
     (case items of
        None \<Rightarrow> Return (p, 0, Some (ItemsNilError ''properties.Default.AddTextMap''))
      | Some entries \<Rightarrow> AddTextMap_loop ParseAny p entries allow options 0)"

definition Delete :: "Default \<Rightarrow> PropertyName \<Rightarrow> Default \<times> bool \<times> error option" where
  "Delete p name =
     (case syncMap p name of
        None \<Rightarrow> (p, False, None)
      | Some _ \<Rightarrow>
          (p\<lparr>syncMap := (syncMap p)(name := None), syncMapSize := syncMapSize p - 1\<rparr>,
           True, None))"

definition Size :: "Default \<Rightarrow> 64 word" where
  "Size p = syncMapSize p"

definition Named :: "Default \<Rightarrow> PropertyName \<Rightarrow> property option \<times> bool" where
  "Named p name = (case syncMap p name of Some prop \<Rightarrow> (Some prop, True) | None \<Rightarrow> (None, False))"

section \<open>Front matter (factory.go)\<close>

subsection \<open>strings.TrimSpace, bytes.TrimSpace and bytes.Buffer.ReadString\<close>

text \<open>
  \<open>TrimSpace\<close> removes the white space runes of \<open>unicode.IsSpace\<close> from both ends of
  the UTF-8 text: the six ASCII ones, U+0085 and U+00A0 (two bytes each), and U+1680,
  U+2000 to U+200A, U+2028, U+2029, U+202F, U+205F and U+3000 (three bytes each).
\<close>

definition asciiSpace :: "char \<Rightarrow> bool" where
  "asciiSpace c = (c \<in> set [CHR 0x09, CHR 0x0A, CHR 0x0B, CHR 0x0C, CHR 0x0D, CHR 0x20])"

definition isSpace2 :: "char \<Rightarrow> char \<Rightarrow> bool" where
  "isSpace2 a b = (a = CHR 0xC2 \<and> (b = CHR 0x85 \<or> b = CHR 0xA0))"

definition isSpace3 :: "char \<Rightarrow> char \<Rightarrow> char \<Rightarrow> bool" where
  "isSpace3 a b c =
     ((a = CHR 0xE1 \<and> b = CHR 0x9A \<and> c = CHR 0x80)
    \<or> (a = CHR 0xE2 \<and> b = CHR 0x80 \<and>
         ((0x80 \<le> (of_char c :: nat) \<and> (of_char c :: nat) \<le> 0x8A)
          \<or> c = CHR 0xA8 \<or> c = CHR 0xA9 \<or> c = CHR 0xAF))
    \<or> (a = CHR 0xE2 \<and> b = CHR 0x81 \<and> c = CHR 0x9F)
    \<or> (a = CHR 0xE3 \<and> b = CHR 0x80 \<and> c = CHR 0x80))"

fun trimLeft :: "string \<Rightarrow> string" where
  "trimLeft (a # b # c # s) =
     (if asciiSpace a then trimLeft (b # c # s)
      else if isSpace2 a b then trimLeft (c # s)
      else if isSpace3 a b c then trimLeft s
      else a # b # c # s)"
| "trimLeft [a, b] =
     (if asciiSpace a then trimLeft [b] else if isSpace2 a b then [] else [a, b])"
| "trimLeft [a] = (if asciiSpace a then [] else [a])"
| "trimLeft [] = []"

text \<open>\<open>trimRightRev\<close> trims the right end of a text that is given back to front.\<close>

fun trimRightRev :: "string \<Rightarrow> string" where
  "trimRightRev (c # b # a # s) =
     (if asciiSpace c then trimRightRev (b # a # s)
      else if isSpace2 b c then trimRightRev (a # s)
      else if isSpace3 a b c then trimRightRev s
      else c # b # a # s)"
| "trimRightRev [c, b] =
     (if asciiSpace c then trimRightRev [b] else if isSpace2 b c then [] else [c, b])"
| "trimRightRev [c] = (if asciiSpace c then [] else [c])"
| "trimRightRev [] = []"

definition TrimSpace :: "string \<Rightarrow> string" where
  "TrimSpace s = rev (trimRightRev (rev (trimLeft s)))"

text \<open>\<open>bytes.TrimSpace\<close> returns the nil slice (\<open>None\<close>) when nothing is left.\<close>

definition bytes_TrimSpace :: "string \<Rightarrow> string option" where
  "bytes_TrimSpace s = (if TrimSpace s = [] then None else Some (TrimSpace s))"

text \<open>
  \<open>buf.ReadString('\n')\<close> on a buffer whose unread part is \<open>buf\<close>: the line read, the
  unread part left, and whether the error is \<open>io.EOF\<close> (no newline was left; the
  buffer returns no other error).
\<close>

definition newline :: char where
  "newline = CHR 0x0A"

definition ReadString :: "string \<Rightarrow> string \<times> string \<times> bool" where
  "ReadString buf =
     (case dropWhile (\<lambda>c. c \<noteq> newline) buf of
        [] \<Rightarrow> (buf, [], True)
      | _ # rest \<Rightarrow> (takeWhile (\<lambda>c. c \<noteq> newline) buf @ [newline], rest, False))"

subsection \<open>The scan for the delimiter lines\<close>

text \<open>
  The \<open>for\<close> loop of \<open>fromYAMLFrontMatter\<close>. \<open>lenb\<close> is \<open>len(b)\<close> and \<open>buf\<close> the unread
  part of the buffer, so \<open>len(b) - buf.Len()\<close> is \<open>lenb - length buf\<close>. The result is
  the three variables after the loop.
\<close>

function scanLoop :: "nat \<Rightarrow> string \<Rightarrow> bool \<Rightarrow> nat \<Rightarrow> nat \<Rightarrow> bool \<times> nat \<times> nat" where
  "scanLoop lenb buf insideFrontMatter yamlStartIndex yamlEndIndex =
     (if snd (snd (ReadString buf)) then (insideFrontMatter, yamlStartIndex, yamlEndIndex)
      else if TrimSpace (fst (ReadString buf)) \<noteq> ''---'' then
        scanLoop lenb (fst (snd (ReadString buf))) insideFrontMatter yamlStartIndex yamlEndIndex
      else if \<not> insideFrontMatter then
        scanLoop lenb (fst (snd (ReadString buf))) True
          (lenb - length (fst (snd (ReadString buf)))) yamlEndIndex
      else (insideFrontMatter, yamlStartIndex, lenb - length (fst (snd (ReadString buf)))))"
  by pat_completeness auto

termination scanLoop
proof (relation "measure (\<lambda>(lenb, buf, i, s, e). length buf)", goal_cases)
  case 1
  show ?case by simp
next
  case (2 lenb buf insideFrontMatter yamlStartIndex yamlEndIndex)
  then show ?case
    using length_dropWhile_le [of "\<lambda>c. c \<noteq> newline" buf]
    by (auto simp: ReadString_def split: list.splits)
next
  case (3 lenb buf insideFrontMatter yamlStartIndex yamlEndIndex)
  then show ?case
    using length_dropWhile_le [of "\<lambda>c. c \<noteq> newline" buf]
    by (auto simp: ReadString_def split: list.splits)
qed

declare scanLoop.simps [simp del]

text \<open>The slice expression \<open>b[lo:hi]\<close>, which panics out of range.\<close>

definition slice :: "string \<Rightarrow> nat \<Rightarrow> nat \<Rightarrow> string outcome" where
  "slice b lo hi = (if lo \<le> hi \<and> hi \<le> length b then Return (take (hi - lo) (drop lo b)) else Panic)"

subsection \<open>The collection factory\<close>

record DefaultPropertiesFactory =
  PropFactory :: DefaultPropertyFactory

definition ThePropertiesFactory :: DefaultPropertiesFactory where
  "ThePropertiesFactory = \<lparr>PropFactory = ThePropertyFactory\<rparr>"

definition EmptyMutable :: "DefaultPropertiesFactory \<Rightarrow> option_value list \<Rightarrow> Default" where
  "EmptyMutable f options = newDefaultProperties (PropFactory f) options"

definition fromStringMap ::
  "DefaultPropertiesFactory \<Rightarrow> (string \<times> any_value) list option \<Rightarrow> AllowAddFunc option \<Rightarrow>
   option_value list \<Rightarrow> (Default option \<times> 64 word \<times> error option) outcome" where
  "fromStringMap f items allow options =
     (case items of
        None \<Rightarrow> Return (None, 0, Some (ItemsNilError ''items is Nil''))
      | Some _ \<Rightarrow>
          (case AddMap (EmptyMutable f options) items allow options of
             Panic \<Rightarrow> Panic
           | Return (props, count, err) \<Rightarrow> Return (Some props, count, err)))"

text \<open>
  \<open>fromYAMLFrontMatter\<close>. \<open>yaml.Unmarshal\<close> belongs to a library outside the repository:
  \<open>UnmarshalText\<close> decodes into a \<open>map[string]string\<close> and \<open>UnmarshalAny\<close> into a
  \<open>map[string]interface{}\<close>, \<open>None\<close> being a decoding error. In both branches the
  \<open>err\<close> that receives the error of the bulk insertion is the one declared by
  \<open>err := yaml.Unmarshal(...)\<close> inside the branch; the \<open>err\<close> of the last \<open>return\<close> is
  the outer variable, which is never assigned.
\<close>

definition fromYAMLFrontMatter ::
  "(string \<Rightarrow> Time option) \<Rightarrow> (string \<Rightarrow> (string \<times> string) list option) \<Rightarrow>
   (string \<Rightarrow> (string \<times> any_value) list option) \<Rightarrow> DefaultPropertiesFactory \<Rightarrow> string \<Rightarrow> bool \<Rightarrow>
   AllowAddFunc option \<Rightarrow> AllowAddTextFunc option \<Rightarrow> option_value list \<Rightarrow>
   (string option \<times> Default option \<times> 64 word \<times> error option) outcome" where
  "fromYAMLFrontMatter ParseAny UnmarshalText UnmarshalAny f b smartParseFM allow allowText options =
     (case scanLoop (length b) b False 0 0 of
        (insideFrontMatter, yamlStartIndex, yamlEndIndex) \<Rightarrow>
          if \<not> insideFrontMatter then Return (Some b, None, 0, None)
          else if insideFrontMatter \<and> yamlEndIndex = 0 then
            Return (None, None, 0,
              Some (FrontMatterParserError insideFrontMatter yamlStartIndex yamlEndIndex))
          else
            (case slice b yamlStartIndex yamlEndIndex of
               Panic \<Rightarrow> Panic
             | Return yaml \<Rightarrow>
                 if smartParseFM then
                   (case UnmarshalText yaml of
                      None \<Rightarrow> Return (None, None, 0, None)
                    | Some items \<Rightarrow>
                        (case AddTextMap ParseAny (EmptyMutable f options) (Some items)
                                allowText options of
                           Panic \<Rightarrow> Panic
                         | Return (props, count, err) \<Rightarrow>
                             Return (bytes_TrimSpace (drop yamlEndIndex b), Some props,
                                     count, None)))
                 else
                   (case UnmarshalAny yaml of
                      None \<Rightarrow> Return (None, None, 0, None)
                    | Some items \<Rightarrow>
                        (case fromStringMap f (Some items) allow options of
                           Panic \<Rightarrow> Panic
                         | Return (props, count, err) \<Rightarrow>
                             Return (bytes_TrimSpace (drop yamlEndIndex b), props,
                                     count, None)))))"

definition MutableFromFrontMatter ::
  "(string \<Rightarrow> Time option) \<Rightarrow> (string \<Rightarrow> (string \<times> string) list option) \<Rightarrow>
   (string \<Rightarrow> (string \<times> any_value) list option) \<Rightarrow> DefaultPropertiesFactory \<Rightarrow> string \<Rightarrow> bool \<Rightarrow>
   AllowAddFunc option \<Rightarrow> AllowAddTextFunc option \<Rightarrow> option_value list \<Rightarrow>
   (string option \<times> Default option \<times> 64 word \<times> error option) outcome" where
  "MutableFromFrontMatter ParseAny UnmarshalText UnmarshalAny f content smartParseFM allow
     allowText options =
     fromYAMLFrontMatter ParseAny UnmarshalText UnmarshalAny f content smartParseFM allow
       allowText options"

section \<open>Notions and sample values of the statements\<close>

text \<open>
  A stand-in for the date parser at concrete inputs: it takes the four digits
  \<open>2014\<close> for a year and refuses every other text.
\<close>

definition yearParseAny :: "string \<Rightarrow> Time option" where
  "yearParseAny s = (if s = ''2014'' then Some (Time 1388534400000000000 0) else None)"

text \<open>
  The six dynamic types that the type switch of \<open>FromAny\<close> names.
\<close>

fun isRecognized :: "any_value \<Rightarrow> bool" where
  "isRecognized (AString _) = True"
| "isRecognized (AStrings _) = True"
| "isRecognized (ATime _) = True"
| "isRecognized (ABool _) = True"
| "isRecognized (AInt _) = True"
| "isRecognized (AInt64 _) = True"
| "isRecognized _ = False"






definition oneTitle :: Default where
  "oneTitle =
     \<lparr>pf = ThePropertyFactory,
      syncMap = [''title'' \<mapsto> DefaultTextProperty ''title'' ''first''],
      syncMapSize = 1, addPolicy = None, addEvent = False, notified = []\<rparr>"

text \<open>
  The lines of a buffer: it is cut after every newline, each line keeps its newline, and
  the last element is what follows the last newline (empty when the buffer ends with a
  newline, or is empty). A line is terminated when it ends with its only newline; these are
  the lines \<open>ReadString\<close> returns without \<open>io.EOF\<close>.
\<close>

fun linesOf :: "string \<Rightarrow> string list" where
  "linesOf [] = [[]]"
| "linesOf (c # cs) =
     (if c = newline then [c] # linesOf cs
      else (case linesOf cs of [] \<Rightarrow> [[c]] | l # ls \<Rightarrow> (c # l) # ls))"

definition terminated :: "string \<Rightarrow> bool" where
  "terminated l = (l \<noteq> [] \<and> last l = newline \<and> newline \<notin> set (butlast l))"

text \<open>
  Buffers and decoders for concrete inputs. \<open>noFrontMatter\<close> and \<open>invalidFrontMatter1\<close>
  are the constants of \<open>properties_test.go\<close>; \<open>shortFrontMatter\<close> is its
  \<open>validFrontMatter\<close> with two entries. The decoders stand in for \<open>yaml.Unmarshal\<close>:
  \<open>sampleUnmarshalText\<close> and \<open>sampleUnmarshalAny\<close> decode the one YAML text they
  know, and \<open>echoUnmarshalText\<close> returns the text it is given as the value of the single
  key \<open>yaml\<close>. \<open>noFlags\<close> is an add-policy that fails on a Flag property and allows
  every other property.
\<close>

definition noFrontMatter :: string where
  "noFrontMatter = ''test body without front matter''"


definition shortFrontMatter :: string where
  "shortFrontMatter =
     ''\<newline>---\<newline>number: 221\<newline>flag: true\<newline>---\<newline>test body\<newline>''"


definition sampleUnmarshalText :: "string \<Rightarrow> (string \<times> string) list option" where
  "sampleUnmarshalText yaml =
     (if yaml = ''number: 221\<newline>flag: true\<newline>---\<newline>''
      then Some [(''number'', ''221''), (''flag'', ''true'')] else None)"

definition sampleUnmarshalAny :: "string \<Rightarrow> (string \<times> any_value) list option" where
  "sampleUnmarshalAny yaml =
     (if yaml = ''number: 221\<newline>flag: true\<newline>---\<newline>''
      then Some [(''number'', AInt 221), (''flag'', ABool True)] else None)"


definition noFlags :: "property option \<Rightarrow> result" where
  "noFlags givenProp =
     (case givenProp of
        Some (DefaultFlagProperty n b) \<Rightarrow> (givenProp, False, Some (CallbackError ''no flags''))
      | _ \<Rightarrow> (givenProp, True, None))"

section \<open>Properties of the factory\<close>

lemma ParseBool_true: "ParseBool ''true'' = Some True"
  by (simp add: ParseBool_def)

lemma ParseBool_false: "ParseBool ''false'' = Some False"
  by (simp add: ParseBool_def)

lemma ParseBool_221: "ParseBool ''221'' = None"
  by (simp add: ParseBool_def)

lemma ParseInt_221: "ParseInt ''221'' = Some 221"
  by (simp add: ParseInt_def isDigit_def decimal_def)

lemma afterSuccessfulCreate_no_hooks:
  "AfterCreate f = None \<Longrightarrow> AfterCreateHookFunc f = None \<Longrightarrow>
   afterSuccessfulCreate f prop = (Some prop, True, None)"
  by (simp add: afterSuccessfulCreate_def)

lemma FromText_cases:
  "(ParseBool v = Some b \<longrightarrow>
      FromText P f name v opts = afterSuccessfulCreate f (DefaultFlagProperty name b))
 \<and> (ParseBool v = None \<and> P v = Some t \<longrightarrow>
      FromText P f name v opts = afterSuccessfulCreate f (DefaultDateTimeProperty name t))
 \<and> (ParseBool v = None \<and> P v = None \<and> ParseInt v = Some n \<longrightarrow>
      FromText P f name v opts = afterSuccessfulCreate f (DefaultCardinalProperty name n))
 \<and> (ParseBool v = None \<and> P v = None \<and> ParseInt v = None \<longrightarrow>
      FromText P f name v opts = afterSuccessfulCreate f (DefaultTextProperty name v))"
  by (simp add: FromText_def)

text \<open>
  Claim C1. \<open>FromText\<close> tries the interpretations in the order boolean literal, date
  and time, base-10 64-bit integer, plain text, and takes the first that succeeds; the
  property built goes through the after-create hooks. With no hook installed, for every
  name, \<open>"true"\<close> and \<open>"false"\<close> give a Flag property, and \<open>"221"\<close>, which the date
  parser refuses, gives the Cardinal property of value 221.
\<close>

theorem FromText_precedence:
  "(ParseBool v = Some b \<longrightarrow>
      FromText P f name v opts = afterSuccessfulCreate f (DefaultFlagProperty name b))
 \<and> (ParseBool v = None \<and> P v = Some t \<longrightarrow>
      FromText P f name v opts = afterSuccessfulCreate f (DefaultDateTimeProperty name t))
 \<and> (ParseBool v = None \<and> P v = None \<and> ParseInt v = Some n \<longrightarrow>
      FromText P f name v opts = afterSuccessfulCreate f (DefaultCardinalProperty name n))
 \<and> (ParseBool v = None \<and> P v = None \<and> ParseInt v = None \<longrightarrow>
      FromText P f name v opts = afterSuccessfulCreate f (DefaultTextProperty name v))
 \<and> (AfterCreate f = None \<and> AfterCreateHookFunc f = None \<longrightarrow>
      FromText P f name ''true'' opts = (Some (DefaultFlagProperty name True), True, None)
    \<and> FromText P f name ''false'' opts = (Some (DefaultFlagProperty name False), True, None)
    \<and> (P ''221'' = None \<longrightarrow>
        FromText P f name ''221'' opts = (Some (DefaultCardinalProperty name 221), True, None)))"
proof -
  have t: "FromText P f name ''true'' opts = afterSuccessfulCreate f (DefaultFlagProperty name True)"
    using FromText_cases [where v = "''true''" and b = True and P = P and f = f] ParseBool_true
    by simp
  have fl: "FromText P f name ''false'' opts = afterSuccessfulCreate f (DefaultFlagProperty name False)"
    using FromText_cases [where v = "''false''" and b = False and P = P and f = f] ParseBool_false
    by simp
  have n: "P ''221'' = None \<longrightarrow>
      FromText P f name ''221'' opts = afterSuccessfulCreate f (DefaultCardinalProperty name 221)"
    using FromText_cases [where v = "''221''" and n = 221 and P = P and f = f]
      ParseBool_221 ParseInt_221
    by simp
  from FromText_cases [of v b P f name opts t n] t fl n show ?thesis
    by (simp add: afterSuccessfulCreate_no_hooks)
qed

lemma ParseBool_T: "ParseBool ''T'' = Some True"
  by (simp add: ParseBool_def)
lemma ParseBool_2014: "ParseBool ''2014'' = None"
  by (simp add: ParseBool_def)
lemma ParseBool_text: "ParseBool ''test description'' = None"
  by (simp add: ParseBool_def)
lemma ParseInt_text: "ParseInt ''test description'' = None"
  by (simp add: ParseInt_def isDigit_def)

theorem FromText_precedence_witness:
  "FromText yearParseAny ThePropertyFactory ''flag'' ''T'' [] =
     (Some (DefaultFlagProperty ''flag'' True), True, None)
 \<and> FromText yearParseAny ThePropertyFactory ''date'' ''2014'' [] =
     (Some (DefaultDateTimeProperty ''date'' (Time 1388534400000000000 0)), True, None)
 \<and> FromText yearParseAny ThePropertyFactory ''number'' ''221'' [] =
     (Some (DefaultCardinalProperty ''number'' 221), True, None)
 \<and> FromText yearParseAny ThePropertyFactory ''description'' ''test description'' [] =
     (Some (DefaultTextProperty ''description'' ''test description''), True, None)"
proof -
  have h: "AfterCreate ThePropertyFactory = None" "AfterCreateHookFunc ThePropertyFactory = None"
    by (simp_all add: ThePropertyFactory_def)
  have a: "FromText yearParseAny ThePropertyFactory ''flag'' ''T'' [] =
     (Some (DefaultFlagProperty ''flag'' True), True, None)"
    using FromText_precedence [where v = "''T''" and b = True and P = yearParseAny
        and f = ThePropertyFactory and name = "''flag''" and opts = "[]"] ParseBool_T
    by (simp add: afterSuccessfulCreate_no_hooks h)
  have b: "FromText yearParseAny ThePropertyFactory ''date'' ''2014'' [] =
     (Some (DefaultDateTimeProperty ''date'' (Time 1388534400000000000 0)), True, None)"
    using FromText_precedence [where v = "''2014''" and t = "Time 1388534400000000000 0"
        and P = yearParseAny and f = ThePropertyFactory and name = "''date''" and opts = "[]"] ParseBool_2014
    by (simp add: afterSuccessfulCreate_no_hooks h yearParseAny_def)
  have c: "FromText yearParseAny ThePropertyFactory ''number'' ''221'' [] =
     (Some (DefaultCardinalProperty ''number'' 221), True, None)"
    using FromText_precedence [where P = yearParseAny
        and f = ThePropertyFactory and name = "''number''" and opts = "[]"] h
    by (simp add: yearParseAny_def)
  have d: "FromText yearParseAny ThePropertyFactory ''description'' ''test description'' [] =
     (Some (DefaultTextProperty ''description'' ''test description''), True, None)"
    using FromText_precedence [where v = "''test description''"
        and P = yearParseAny and f = ThePropertyFactory and name = "''description''" and opts = "[]"]
       ParseBool_text ParseInt_text
    by (simp add: afterSuccessfulCreate_no_hooks h yearParseAny_def)
  from a b c d show ?thesis by simp
qed



text \<open>
  Claim C4, as amended. With no hook installed, for every name, \<open>FromAny\<close> of a value
  of type \<open>int\<close> or \<open>int64\<close> returns the Cardinal property holding that number as an
  \<open>int64\<close>, accepted, with no error. A value of type \<open>int8\<close>, \<open>int16\<close>, \<open>int32\<close> or
  \<open>uint\<close> is not a case of the type switch and takes the unknown-type path.
\<close>

theorem FromAny_int_cardinal:
  "(AfterCreate f = None \<and> AfterCreateHookFunc f = None \<longrightarrow>
      FromAny f name (AInt n) opts = (Some (DefaultCardinalProperty name n), True, None)
    \<and> FromAny f name (AInt64 n) opts = (Some (DefaultCardinalProperty name n), True, None))
 \<and> FromAny f name (AInt8 n8) opts = handleUnknownType f name (AInt8 n8) opts
 \<and> FromAny f name (AInt16 n16) opts = handleUnknownType f name (AInt16 n16) opts
 \<and> FromAny f name (AInt32 n32) opts = handleUnknownType f name (AInt32 n32) opts
 \<and> FromAny f name (AUint u) opts = handleUnknownType f name (AUint u) opts"
  by (simp add: afterSuccessfulCreate_no_hooks)

theorem FromAny_int_cardinal_witness:
  "FromAny ThePropertyFactory ''number'' (AInt 100) [] =
     (Some (DefaultCardinalProperty ''number'' 100), True, None)
 \<and> FromAny ThePropertyFactory ''number'' (AInt64 (- 1)) [] =
     (Some (DefaultCardinalProperty ''number'' (- 1)), True, None)"
  using FromAny_int_cardinal [where f = ThePropertyFactory and name = "''number''" and n = 100 and opts = "[]"]
    FromAny_int_cardinal [where f = ThePropertyFactory and name = "''number''" and n = "- 1" and opts = "[]"]
  by (simp add: ThePropertyFactory_def)

text \<open>
  Claim C4 as stated fails: an \<open>int32\<close> is an integer-typed value, and with the default
  factory and no options \<open>FromAny\<close> returns no property, not accepted, and the
  unknown-type error.
\<close>

theorem FromAny_int32_counterexample:
  "FromAny ThePropertyFactory ''number'' (AInt32 100) [] =
     (None, False, Some (UnknownTypeError ''number'' ''int32'' (AInt32 100)))"
  by (simp add: ThePropertyFactory_def)




text \<open>
  Claim C6, as amended. With no hook installed, for every name and every value of a
  recognized type, \<open>FromAny\<close> returns a property of that name, accepted, with no error,
  whose \<open>AnyValue\<close> is the input itself (a list of strings with its elements in their
  order), except that an input of type \<open>int\<close> comes back as the \<open>int64\<close> of the same
  number.
\<close>

theorem FromAny_AnyValue_roundtrip:
  "isRecognized v \<Longrightarrow> AfterCreate f = None \<Longrightarrow> AfterCreateHookFunc f = None \<Longrightarrow>
   (\<exists>p. FromAny f name v opts = (Some p, True, None) \<and> Name p = name
      \<and> AnyValue p = (case v of AInt n \<Rightarrow> AInt64 n | _ \<Rightarrow> v))"
  by (cases v) (simp_all add: afterSuccessfulCreate_no_hooks)

theorem FromAny_AnyValue_roundtrip_witness:
  "(\<exists>p. FromAny ThePropertyFactory ''tags'' (AStrings [''b'', ''a'', ''b'']) [] = (Some p, True, None)
       \<and> Name p = ''tags'' \<and> AnyValue p = AStrings [''b'', ''a'', ''b''])"
  using FromAny_AnyValue_roundtrip [where f = ThePropertyFactory and name = "''tags''"
      and v = "AStrings [''b'', ''a'', ''b'']" and opts = "[]"]
  by (simp add: ThePropertyFactory_def)

text \<open>
  Claim C6 as stated fails for an input of type \<open>int\<close>: the value that comes back has
  the dynamic type \<open>int64\<close>, and is not the input.
\<close>

theorem FromAny_AnyValue_int_counterexample:
  "map_option AnyValue (fst (FromAny ThePropertyFactory ''number'' (AInt 100) [])) = Some (AInt64 100)
 \<and> AInt64 100 \<noteq> AInt 100"
  by (simp add: ThePropertyFactory_def afterSuccessfulCreate_def)

section \<open>Properties of the collection\<close>











lemma FromAny_recognized:
  "isRecognized v \<Longrightarrow> AfterCreate f = None \<Longrightarrow> AfterCreateHookFunc f = None \<Longrightarrow>
   \<exists>fp. FromAny f name v opts = (Some fp, True, None) \<and> Name fp = name"
  by (cases v) (simp_all add: afterSuccessfulCreate_no_hooks)

lemma Add_first_title:
  "Add (EmptyMutable ThePropertiesFactory []) ''title'' (AString ''first'') [] =
     Return (oneTitle, (Some (DefaultTextProperty ''title'' ''first''), True, None))"
  by (simp add: Add_def AddChecked_def AddProperty_def AddProperty_store_def EmptyMutable_def
      ThePropertiesFactory_def newDefaultProperties_def afterSuccessfulCreate_def
      ThePropertyFactory_def oneTitle_def)

text \<open>
  Claim C3. The claim holds of the documented behaviour (\<open>Size\<close> "returns the number
  of items") and fails on the code: \<open>AddProperty\<close> increments \<open>syncMapSize\<close> on
  every insertion that is not vetoed. For every collection without a policy, whose factory
  has no hook, an \<open>Add\<close> of a value of a recognized type under a name that is already
  present returns normally, overwrites the entry, leaves the set of names as it was, and
  makes \<open>Size\<close> one more than before.
\<close>

theorem Add_duplicate_name_counted:
  assumes "addPolicy p = None"
    and "AfterCreate (pf p) = None" and "AfterCreateHookFunc (pf p) = None"
    and "isRecognized v"
    and "syncMap p name = Some old"
  shows "\<exists>p' fp. Add p name v opts = Return (p', (Some fp, True, None))
     \<and> syncMap p' = (syncMap p)(name \<mapsto> fp)
     \<and> dom (syncMap p') = dom (syncMap p)
     \<and> Size p' = Size p + 1 \<and> Size p' \<noteq> Size p"
proof -
  from FromAny_recognized [OF assms(4) assms(2) assms(3), of name opts] obtain fp
    where fp: "FromAny (pf p) name v opts = (Some fp, True, None)" "Name fp = name"
    by blast
  have d: "dom ((syncMap p)(name \<mapsto> fp)) = dom (syncMap p)"
    using assms(5) by auto
  show ?thesis
    using fp assms(1) d
    by (simp add: Add_def AddChecked_def AddProperty_def AddProperty_store_def Size_def)
qed

theorem Add_duplicate_name_counted_witness:
  "Add (EmptyMutable ThePropertiesFactory []) ''title'' (AString ''first'') [] =
     Return (oneTitle, (Some (DefaultTextProperty ''title'' ''first''), True, None))
 \<and> Size oneTitle = 1 \<and> dom (syncMap oneTitle) = {''title''}
 \<and> (\<exists>p' fp. Add oneTitle ''title'' (AString ''second'') [] = Return (p', (Some fp, True, None))
        \<and> dom (syncMap p') = {''title''} \<and> Size p' = 2)"
proof -
  have h: "addPolicy oneTitle = None" "AfterCreate (pf oneTitle) = None"
    "AfterCreateHookFunc (pf oneTitle) = None" "isRecognized (AString ''second'')"
    "syncMap oneTitle ''title'' = Some (DefaultTextProperty ''title'' ''first'')"
    by (simp_all add: oneTitle_def ThePropertyFactory_def)
  have s: "Size oneTitle = 1" "dom (syncMap oneTitle) = {''title''}"
    by (simp_all add: oneTitle_def Size_def)
  from Add_duplicate_name_counted [OF h, of "[]"] s Add_first_title show ?thesis
    by auto
qed




section \<open>Properties of front-matter extraction\<close>

lemma terminated_iff:
  "terminated l = (\<exists>l0. l = l0 @ [newline] \<and> newline \<notin> set l0)"
proof
  assume "terminated l"
  then have "l = butlast l @ [newline] \<and> newline \<notin> set (butlast l)"
    by (simp add: terminated_def) (metis append_butlast_last_id)
  then show "\<exists>l0. l = l0 @ [newline] \<and> newline \<notin> set l0" by blast
next
  assume "\<exists>l0. l = l0 @ [newline] \<and> newline \<notin> set l0"
  then show "terminated l" by (auto simp: terminated_def)
qed

lemma dropWhile_to_newline:
  "newline \<notin> set l0 \<Longrightarrow> dropWhile (\<lambda>c. c \<noteq> newline) (l0 @ newline # rest) = newline # rest"
  by (induction l0) auto

lemma takeWhile_to_newline:
  "newline \<notin> set l0 \<Longrightarrow> takeWhile (\<lambda>c. c \<noteq> newline) (l0 @ newline # rest) = l0"
  by (induction l0) auto

lemma dropWhile_no_newline:
  "newline \<notin> set buf \<Longrightarrow> dropWhile (\<lambda>c. c \<noteq> newline) buf = []"
  by (induction buf) auto

lemma ReadString_line:
  "newline \<notin> set l0 \<Longrightarrow> ReadString (l0 @ newline # rest) = (l0 @ [newline], rest, False)"
  by (simp add: ReadString_def dropWhile_to_newline takeWhile_to_newline)

lemma ReadString_eof: "newline \<notin> set buf \<Longrightarrow> ReadString buf = (buf, [], True)"
  by (simp add: ReadString_def dropWhile_no_newline)

lemma scanLoop_eof: "newline \<notin> set buf \<Longrightarrow> scanLoop n buf i s e = (i, s, e)"
  by (subst scanLoop.simps) (simp add: ReadString_eof)

lemma scanLoop_skip:
  "terminated l \<Longrightarrow> TrimSpace l \<noteq> ''---'' \<Longrightarrow>
   scanLoop n (l @ rest) i s e = scanLoop n rest i s e"
  by (subst scanLoop.simps) (auto simp: terminated_iff ReadString_line)

lemma scanLoop_open:
  "terminated l \<Longrightarrow> TrimSpace l = ''---'' \<Longrightarrow>
   scanLoop n (l @ rest) False s e = scanLoop n rest True (n - length rest) e"
  by (subst scanLoop.simps) (auto simp: terminated_iff ReadString_line)

lemma scanLoop_close:
  "terminated l \<Longrightarrow> TrimSpace l = ''---'' \<Longrightarrow>
   scanLoop n (l @ rest) True s e = (True, s, n - length rest)"
  by (subst scanLoop.simps) (auto simp: terminated_iff ReadString_line)

lemma scanLoop_skip_lines:
  "\<forall>l\<in>set ls. terminated l \<and> TrimSpace l \<noteq> ''---'' \<Longrightarrow>
   scanLoop n (concat ls @ rest) i s e = scanLoop n rest i s e"
  by (induction ls) (simp_all add: scanLoop_skip)

lemma linesOf_decomp:
  "\<exists>ls r. linesOf buf = ls @ [r] \<and> buf = concat ls @ r \<and> (\<forall>l\<in>set ls. terminated l)
     \<and> newline \<notin> set r"
proof (induction buf)
  case Nil
  show ?case by simp
next
  case (Cons c cs)
  then obtain ls r where IH: "linesOf cs = ls @ [r]" "cs = concat ls @ r"
    "\<forall>l\<in>set ls. terminated l" "newline \<notin> set r" by blast
  show ?case
  proof (cases "c = newline")
    case True
    have "terminated [c]" using True by (simp add: terminated_iff)
    with IH True show ?thesis
      by (intro exI [of _ "[c] # ls"] exI [of _ r]) simp
  next
    case False
    show ?thesis
    proof (cases ls)
      case Nil
      with IH False show ?thesis
        by (intro exI [of _ "[]"] exI [of _ "c # r"]) simp
    next
      case (Cons l ls')
      have "terminated (c # l)"
        using IH(3) Cons False by (auto simp: terminated_iff intro: exI [of _ "c # l0" for l0])
      with IH False Cons show ?thesis
        by (intro exI [of _ "(c # l) # ls'"] exI [of _ r]) simp
    qed
  qed
qed

lemma linesOf_props:
  "linesOf buf \<noteq> [] \<and> buf = concat (linesOf buf)
 \<and> (\<forall>l\<in>set (butlast (linesOf buf)). terminated l) \<and> newline \<notin> set (last (linesOf buf))"
proof -
  from linesOf_decomp [of buf] obtain ls r where
    "linesOf buf = ls @ [r]" "buf = concat ls @ r" "\<forall>l\<in>set ls. terminated l" "newline \<notin> set r"
    by blast
  then show ?thesis by simp
qed

lemma scanLoop_no_delimiter:
  assumes "\<forall>l\<in>set (butlast (linesOf b)). TrimSpace l \<noteq> ''---''"
  shows "scanLoop n b i s e = (i, s, e)"
proof -
  let ?ls = "butlast (linesOf b)" and ?r = "last (linesOf b)"
  have b: "b = concat ?ls @ ?r"
    using linesOf_props [of b] by (metis append_butlast_last_id concat_append concat.simps append_Nil2)
  have "scanLoop n (concat ?ls @ ?r) i s e = scanLoop n ?r i s e"
    using assms linesOf_props [of b] by (intro scanLoop_skip_lines) simp
  also have "\<dots> = (i, s, e)"
    using linesOf_props [of b] by (intro scanLoop_eof) simp
  finally show ?thesis using b by simp
qed


lemma scanLoop_closed:
  assumes "linesOf b = pre @ opening # mid @ closing # post" and "post \<noteq> []"
    and "\<forall>l\<in>set pre. TrimSpace l \<noteq> ''---''" and "TrimSpace opening = ''---''"
    and "\<forall>l\<in>set mid. TrimSpace l \<noteq> ''---''" and "TrimSpace closing = ''---''"
  shows "b = concat pre @ opening @ concat mid @ closing @ concat post
       \<and> opening \<noteq> []
       \<and> scanLoop n b False s e =
           (True, n - length (concat mid @ closing @ concat post), n - length (concat post))"
proof -
  have bl: "butlast (linesOf b) = pre @ opening # mid @ closing # butlast post"
    using assms(1,2) by (simp add: butlast_append)
  have t: "\<forall>l\<in>set pre. terminated l" "terminated opening" "\<forall>l\<in>set mid. terminated l"
    "terminated closing"
    using linesOf_props [of b] bl by simp_all
  have b: "b = concat pre @ opening @ concat mid @ closing @ concat post"
    using linesOf_props [of b] assms(1) by simp
  have "scanLoop n b False s e = scanLoop n (opening @ concat mid @ closing @ concat post) False s e"
    unfolding b using t(1) assms(3) by (intro scanLoop_skip_lines) simp
  also have "\<dots> = scanLoop n (concat mid @ closing @ concat post) True
                    (n - length (concat mid @ closing @ concat post)) e"
    using t(2) assms(4) by (rule scanLoop_open)
  also have "\<dots> = scanLoop n (closing @ concat post) True
                    (n - length (concat mid @ closing @ concat post)) e"
    using t(3) assms(5) by (intro scanLoop_skip_lines) simp
  also have "\<dots> = (True, n - length (concat mid @ closing @ concat post), n - length (concat post))"
    using t(4) assms(6) by (rule scanLoop_close)
  finally show ?thesis using b t(2) by (auto simp: terminated_iff)
qed

lemma closed_front_matter:
  assumes "linesOf b = pre @ opening # mid @ closing # post" and "post \<noteq> []"
    and "\<forall>l\<in>set pre. TrimSpace l \<noteq> ''---''" and "TrimSpace opening = ''---''"
    and "\<forall>l\<in>set mid. TrimSpace l \<noteq> ''---''" and "TrimSpace closing = ''---''"
  shows "scanLoop (length b) b False 0 0 =
           (True, length (concat pre @ opening), length (concat pre @ opening @ concat mid @ closing))"
    and "length (concat pre @ opening @ concat mid @ closing) \<noteq> 0"
    and "slice b (length (concat pre @ opening))
           (length (concat pre @ opening @ concat mid @ closing)) = Return (concat mid @ closing)"
    and "drop (length (concat pre @ opening @ concat mid @ closing)) b = concat post"
proof -
  note sc = scanLoop_closed [OF assms, of "length b" 0 0]
  have b: "b = concat pre @ opening @ concat mid @ closing @ concat post"
    using sc by (rule conjunct1)
  have o: "opening \<noteq> []"
    using sc by (rule conjunct2 [THEN conjunct1])
  have s: "scanLoop (length b) b False 0 0 =
         (True, length b - length (concat mid @ closing @ concat post),
          length b - length (concat post))"
    using sc by (rule conjunct2 [THEN conjunct2])
  have l1: "length b - length (concat mid @ closing @ concat post) = length (concat pre @ opening)"
    by (subst b) simp
  have l2: "length b - length (concat post) = length (concat pre @ opening @ concat mid @ closing)"
    by (subst b) simp
  show "scanLoop (length b) b False 0 0 =
           (True, length (concat pre @ opening), length (concat pre @ opening @ concat mid @ closing))"
    using s l1 l2 by simp
  show "length (concat pre @ opening @ concat mid @ closing) \<noteq> 0"
    using o by simp
  have b1: "b = (concat pre @ opening @ concat mid @ closing) @ concat post"
    using b by simp
  show "drop (length (concat pre @ opening @ concat mid @ closing)) b = concat post"
    using b1 by (metis append_eq_conv_conj)
  have b2: "b = (concat pre @ opening) @ ((concat mid @ closing) @ concat post)"
    using b by simp
  have "drop (length (concat pre @ opening)) b = (concat mid @ closing) @ concat post"
    using b2 by (metis append_eq_conv_conj)
  then have "take (length (concat mid @ closing)) (drop (length (concat pre @ opening)) b) =
      concat mid @ closing"
    by simp
  moreover have "length (concat pre @ opening @ concat mid @ closing) - length (concat pre @ opening)
      = length (concat mid @ closing)"
    by simp
  moreover have "length (concat pre @ opening @ concat mid @ closing) \<le> length b"
    by (subst b) simp
  moreover have "length (concat pre @ opening) \<le> length (concat pre @ opening @ concat mid @ closing)"
    by simp
  ultimately show "slice b (length (concat pre @ opening))
           (length (concat pre @ opening @ concat mid @ closing)) = Return (concat mid @ closing)"
    by (simp add: slice_def del: length_append length_concat)
qed

lemma fromYAMLFrontMatter_closed:
  assumes "linesOf b = pre @ opening # mid @ closing # post" and "post \<noteq> []"
    and "\<forall>l\<in>set pre. TrimSpace l \<noteq> ''---''" and "TrimSpace opening = ''---''"
    and "\<forall>l\<in>set mid. TrimSpace l \<noteq> ''---''" and "TrimSpace closing = ''---''"
  shows "fromYAMLFrontMatter P UT UA f b smart allow allowText opts =
        (if smart then
           (case UT (concat mid @ closing) of
              None \<Rightarrow> Return (None, None, 0, None)
            | Some items \<Rightarrow>
                (case AddTextMap P (EmptyMutable f opts) (Some items) allowText opts of
                   Panic \<Rightarrow> Panic
                 | Return (props, count, err) \<Rightarrow>
                     Return (bytes_TrimSpace (concat post), Some props, count, None)))
         else
           (case UA (concat mid @ closing) of
              None \<Rightarrow> Return (None, None, 0, None)
            | Some items \<Rightarrow>
                (case fromStringMap f (Some items) allow opts of
                   Panic \<Rightarrow> Panic
                 | Return (props, count, err) \<Rightarrow>
                     Return (bytes_TrimSpace (concat post), props, count, None))))"
proof -
  define st where "st = length (concat pre @ opening)"
  define en where "en = length (concat pre @ opening @ concat mid @ closing)"
  note c = closed_front_matter [OF assms, folded st_def en_def]
  show ?thesis
    using c by (simp add: fromYAMLFrontMatter_def split: option.splits outcome.splits)
qed

lemmas trim_defs = TrimSpace_def asciiSpace_def isSpace2_def isSpace3_def

lemma TrimSpace_delimiter: "TrimSpace ''---\<newline>'' = ''---''"
  by (simp add: trim_defs)

lemma TrimSpace_samples:
  "TrimSpace ''\<newline>'' \<noteq> ''---''"
  "TrimSpace [] \<noteq> ''---''"
  "TrimSpace ''number: 221\<newline>'' \<noteq> ''---''"
  "TrimSpace ''flag: true\<newline>'' \<noteq> ''---''"
  "TrimSpace ''description: test description\<newline>'' \<noteq> ''---''"
  "TrimSpace ''test body\<newline>'' \<noteq> ''---''"
  "TrimSpace ''title: x\<newline>'' \<noteq> ''---''"
  "TrimSpace ''test body without front matter'' \<noteq> ''---''"
  by (simp_all add: trim_defs)

lemma TrimSpace_body: "bytes_TrimSpace ''test body\<newline>'' = Some ''test body''"
  "bytes_TrimSpace ''body\<newline>'' = Some ''body''"
  by (simp_all add: bytes_TrimSpace_def trim_defs)

lemma linesOf_noFrontMatter: "linesOf noFrontMatter = [''test body without front matter'']"
  by (simp add: noFrontMatter_def newline_def)


lemma linesOf_shortFrontMatter:
  "linesOf shortFrontMatter =
     [''\<newline>''] @ ''---\<newline>'' # [''number: 221\<newline>'', ''flag: true\<newline>''] @
     ''---\<newline>'' # [''test body\<newline>'', []]"
  by (simp add: shortFrontMatter_def newline_def)


lemma FromText_number:
  "FromText yearParseAny ThePropertyFactory ''number'' ''221'' opts =
     (Some (DefaultCardinalProperty ''number'' 221), True, None)"
  by (simp add: FromText_def ParseBool_221 ParseInt_221 yearParseAny_def
      afterSuccessfulCreate_def ThePropertyFactory_def)

lemma FromText_flag:
  "FromText yearParseAny ThePropertyFactory ''flag'' ''true'' opts =
     (Some (DefaultFlagProperty ''flag'' True), True, None)"
  by (simp add: FromText_def ParseBool_true afterSuccessfulCreate_def ThePropertyFactory_def)


lemma shortFrontMatter_lines:
  "[''test body\<newline>'', []] \<noteq> []"
  "\<forall>l\<in>set [''\<newline>'']. TrimSpace l \<noteq> ''---''"
  "\<forall>l\<in>set [''number: 221\<newline>'', ''flag: true\<newline>'']. TrimSpace l \<noteq> ''---''"
  "length (concat [''\<newline>''] @ ''---\<newline>'') = 5"
  "length (concat [''\<newline>''] @ ''---\<newline>'' @
     concat [''number: 221\<newline>'', ''flag: true\<newline>''] @ ''---\<newline>'') = 32"
  "concat [''number: 221\<newline>'', ''flag: true\<newline>''] @ ''---\<newline>'' =
     ''number: 221\<newline>flag: true\<newline>---\<newline>''"
  "concat [''test body\<newline>'', []] = ''test body\<newline>''"
  by (simp_all add: TrimSpace_samples)




lemma AddTextMap_noFlags:
  "AddTextMap yearParseAny
     (EmptyMutable ThePropertiesFactory [OptObject None (Some noFlags) False])
     (Some [(''number'', ''221''), (''flag'', ''true'')]) None
     [OptObject None (Some noFlags) False] =
   Return
     (\<lparr>pf = ThePropertyFactory,
       syncMap = [''number'' \<mapsto> DefaultCardinalProperty ''number'' 221],
       syncMapSize = 1, addPolicy = Some noFlags, addEvent = False, notified = []\<rparr>,
      1, Some (CallbackError ''no flags''))"
  by (simp add: AddTextMap_def AddParsedChecked_def AddProperty_def AddProperty_store_def
      EmptyMutable_def ThePropertiesFactory_def newDefaultProperties_def
      FromText_number FromText_flag noFlags_def)

lemma sampleUnmarshalText_short:
  "sampleUnmarshalText (concat [''number: 221\<newline>'', ''flag: true\<newline>''] @ ''---\<newline>'') =
     Some [(''number'', ''221''), (''flag'', ''true'')]"
  by (simp add: sampleUnmarshalText_def)

text \<open>
  Claim C7. For every buffer none of whose lines has the trimmed content \<open>---\<close>,
  front-matter extraction returns the whole input, unmodified, as the body, no
  collection, the count zero and no error.
\<close>

theorem no_delimiter_whole_body:
  assumes "\<forall>l\<in>set (linesOf b). TrimSpace l \<noteq> ''---''"
  shows "fromYAMLFrontMatter P UT UA f b smart allow allowText opts = Return (Some b, None, 0, None)"
proof -
  have "\<forall>l\<in>set (butlast (linesOf b)). TrimSpace l \<noteq> ''---''"
    using assms by (auto dest: in_set_butlastD)
  then have "scanLoop (length b) b False 0 0 = (False, 0, 0)"
    by (rule scanLoop_no_delimiter)
  then show ?thesis by (simp add: fromYAMLFrontMatter_def)
qed

theorem no_delimiter_whole_body_witness:
  "fromYAMLFrontMatter yearParseAny sampleUnmarshalText sampleUnmarshalAny ThePropertiesFactory
     noFrontMatter False None None [] = Return (Some noFrontMatter, None, 0, None)"
proof -
  have "\<forall>l\<in>set (linesOf noFrontMatter). TrimSpace l \<noteq> ''---''"
    by (simp add: linesOf_noFrontMatter TrimSpace_samples)
  then show ?thesis by (rule no_delimiter_whole_body)
qed






text \<open>
  Claim C10. With \<open>smartParse\<close> set, on a buffer with both delimiter lines whose YAML
  range decodes, whatever error the bulk insertion \<open>AddTextMap\<close> returns, front-matter
  extraction returns the trimmed body, the collection as the insertion left it, the count
  it reached, and no error.
\<close>

theorem bulk_error_not_propagated:
  assumes "linesOf b = pre @ opening # mid @ closing # post" and "post \<noteq> []"
    and "\<forall>l\<in>set pre. TrimSpace l \<noteq> ''---''" and "TrimSpace opening = ''---''"
    and "\<forall>l\<in>set mid. TrimSpace l \<noteq> ''---''" and "TrimSpace closing = ''---''"
    and "UT (concat mid @ closing) = Some items"
    and "AddTextMap P (EmptyMutable f opts) (Some items) allowText opts = Return (props, count, err)"
  shows "fromYAMLFrontMatter P UT UA f b True allow allowText opts =
           Return (bytes_TrimSpace (concat post), Some props, count, None)"
  using fromYAMLFrontMatter_closed [OF assms(1-6), of P UT UA f True allow allowText opts]
    assms(7,8)
  by simp

theorem bulk_error_not_propagated_witness:
  "AddTextMap yearParseAny
     (EmptyMutable ThePropertiesFactory [OptObject None (Some noFlags) False])
     (Some [(''number'', ''221''), (''flag'', ''true'')]) None
     [OptObject None (Some noFlags) False] =
   Return
     (\<lparr>pf = ThePropertyFactory,
       syncMap = [''number'' \<mapsto> DefaultCardinalProperty ''number'' 221],
       syncMapSize = 1, addPolicy = Some noFlags, addEvent = False, notified = []\<rparr>,
      1, Some (CallbackError ''no flags''))
 \<and> fromYAMLFrontMatter yearParseAny sampleUnmarshalText sampleUnmarshalAny ThePropertiesFactory
     shortFrontMatter True None None [OptObject None (Some noFlags) False] =
   Return
     (Some ''test body'',
      Some \<lparr>pf = ThePropertyFactory,
            syncMap = [''number'' \<mapsto> DefaultCardinalProperty ''number'' 221],
            syncMapSize = 1, addPolicy = Some noFlags, addEvent = False, notified = []\<rparr>,
      1, None)"
  using bulk_error_not_propagated [where UT = sampleUnmarshalText and UA = sampleUnmarshalAny
        and allow = None,
      OF linesOf_shortFrontMatter shortFrontMatter_lines(1,2)
      TrimSpace_delimiter shortFrontMatter_lines(3) TrimSpace_delimiter
      sampleUnmarshalText_short AddTextMap_noFlags]
    AddTextMap_noFlags
  by (simp add: TrimSpace_body)

end
